theory Spec2Isabelle
  imports Main
begin

section \<open>Python strings\<close>

text \<open>
  Python \<open>str\<close> values are modelled as HOL strings holding ASCII text. The case
  conversions and \<open>strip\<close> below are the ASCII parts of \<open>str.lower\<close>,
  \<open>str.upper\<close> and \<open>str.strip\<close>; a character outside ASCII is left as it is.
\<close>

definition ascii_uppercase :: string where
  "ascii_uppercase = ''ABCDEFGHIJKLMNOPQRSTUVWXYZ''"

definition ascii_lowercase :: string where
  "ascii_lowercase = ''abcdefghijklmnopqrstuvwxyz''"

definition lower_char :: "char \<Rightarrow> char" where
  "lower_char c = (case map_of (zip ascii_uppercase ascii_lowercase) c of
                     None \<Rightarrow> c | Some d \<Rightarrow> d)"

definition upper_char :: "char \<Rightarrow> char" where
  "upper_char c = (case map_of (zip ascii_lowercase ascii_uppercase) c of
                     None \<Rightarrow> c | Some d \<Rightarrow> d)"

definition lower :: "string \<Rightarrow> string" where
  "lower s = map lower_char s"

definition upper :: "string \<Rightarrow> string" where
  "upper s = map upper_char s"

text \<open>The ASCII characters for which \<open>str.isspace\<close> holds.\<close>

definition whitespace :: "char list" where
  "whitespace = [CHR 0x09, CHR 0x0A, CHR 0x0B, CHR 0x0C, CHR 0x0D,
                 CHR 0x1C, CHR 0x1D, CHR 0x1E, CHR 0x1F, CHR 0x20]"

definition isspace :: "char \<Rightarrow> bool" where
  "isspace c = (c \<in> set whitespace)"

definition strip :: "string \<Rightarrow> string" where
  "strip s = rev (dropWhile isspace (rev (dropWhile isspace s)))"

fun startswith :: "string \<Rightarrow> string \<Rightarrow> bool" where
  "startswith s [] = True"
| "startswith [] (p # ps) = False"
| "startswith (c # cs) (p # ps) = (c = p \<and> startswith cs ps)"

text \<open>\<open>py_in sub s\<close> is Python's \<open>sub in s\<close> on strings.\<close>

fun py_in :: "string \<Rightarrow> string \<Rightarrow> bool" where
  "py_in sub [] = (sub = [])"
| "py_in sub (c # cs) = (startswith (c # cs) sub \<or> py_in sub cs)"

section \<open>Environment detection (\<open>EnvironmentLogger._detect_environment\<close>)\<close>

definition ENV_MAPPING :: "(string \<times> string) list" where
  "ENV_MAPPING = [(''development'', ''development''),
                  (''staging'', ''staging''),
                  (''hotfixes'', ''hotfixes''),
                  (''production'', ''production'')]"

text \<open>\<open>os.getenv\<close>: the process environment, a map from variable names to values.\<close>

type_synonym environ = "string \<Rightarrow> string option"

definition env_sources :: "environ \<Rightarrow> string option list" where
  "env_sources getenv = [getenv ''ENVIRONMENT'', getenv ''ENV'', getenv ''STAGE'',
                         getenv ''AWS_LAMBDA_FUNCTION_NAME'', Some ''development'']"

text \<open>The body of the loop for a candidate that is truthy (neither None nor empty).\<close>

definition classify :: "string \<Rightarrow> string" where
  "classify env_var =
     (if py_in ''lambda'' (lower env_var) then
        (if py_in ''prod'' (lower env_var) \<or> py_in ''production'' (lower env_var)
           then ''production''
         else if py_in ''staging'' (lower env_var) \<or> py_in ''stage'' (lower env_var)
           then ''staging''
         else if py_in ''hotfix'' (lower env_var) then ''hotfixes''
         else ''development'')
      else (case map_of ENV_MAPPING (strip (lower env_var)) of
              None \<Rightarrow> ''development'' | Some e \<Rightarrow> e))"

text \<open>The \<open>for\<close> loop over the candidates; falling off its end gives the default.\<close>

fun detect_loop :: "string option list \<Rightarrow> string" where
  "detect_loop [] = ''development''"
| "detect_loop (None # rest) = detect_loop rest"
| "detect_loop (Some env_var # rest) =
     (if env_var = [] then detect_loop rest else classify env_var)"

definition detect_environment :: "environ \<Rightarrow> string" where
  "detect_environment getenv = detect_loop (env_sources getenv)"

section \<open>JSON serialisation (\<open>json.dumps(log_data, ensure_ascii=False)\<close>)\<close>

datatype json = JNull | JStr string | JInt int

definition digit_char :: "nat \<Rightarrow> char" where
  "digit_char n = ''0123456789abcdef'' ! (n mod 16)"

text \<open>\<open>str\<close> of a Python integer: decimal digits, a minus sign for a negative number.\<close>

fun str_nat :: "nat \<Rightarrow> string" where
  "str_nat n = (if n < 10 then [digit_char n]
                else str_nat (n div 10) @ [digit_char (n mod 10)])"

declare str_nat.simps [simp del]

definition str_int :: "int \<Rightarrow> string" where
  "str_int i = (if i < 0 then CHR ''-'' # str_nat (nat (- i)) else str_nat (nat i))"

text \<open>
  The encoder's escape table: backslash, double quote and the control characters with a
  short escape; every other character below 0x20 is written as \<open>\u00XX\<close>.
\<close>

definition ESCAPE_DCT :: "(char \<times> string) list" where
  "ESCAPE_DCT = [(CHR 0x5C, [CHR 0x5C, CHR 0x5C]),
                 (CHR 0x22, [CHR 0x5C, CHR 0x22]),
                 (CHR 0x08, [CHR 0x5C, CHR ''b'']),
                 (CHR 0x0C, [CHR 0x5C, CHR ''f'']),
                 (CHR 0x0A, [CHR 0x5C, CHR ''n'']),
                 (CHR 0x0D, [CHR 0x5C, CHR ''r'']),
                 (CHR 0x09, [CHR 0x5C, CHR ''t''])]"

definition escape_char :: "char \<Rightarrow> string" where
  "escape_char c =
     (case map_of ESCAPE_DCT c of
        Some e \<Rightarrow> e
      | None \<Rightarrow>
          if (of_char c :: nat) < 32
          then [CHR 0x5C, CHR ''u'', CHR ''0'', CHR ''0'',
                digit_char (of_char c div 16), digit_char (of_char c mod 16)]
          else [c])"

definition encode_basestring :: "string \<Rightarrow> string" where
  "encode_basestring s = CHR 0x22 # concat (map escape_char s) @ [CHR 0x22]"

fun json_encode :: "json \<Rightarrow> string" where
  "json_encode JNull = ''null''"
| "json_encode (JStr s) = encode_basestring s"
| "json_encode (JInt i) = str_int i"

definition json_item :: "string \<times> json \<Rightarrow> string" where
  "json_item kv = encode_basestring (fst kv) @ '': '' @ json_encode (snd kv)"

fun join :: "string \<Rightarrow> string list \<Rightarrow> string" where
  "join sep [] = []"
| "join sep [x] = x"
| "join sep (x # y # ys) = x @ sep @ join sep (y # ys)"

definition json_dumps :: "(string \<times> json) list \<Rightarrow> string" where
  "json_dumps d = ''{'' @ join '', '' (map json_item d) @ ''}''"

section \<open>The logger's state and the values that reach it\<close>

datatype py_error = AttributeError | ValueError | TypeError | KeyError string

text \<open>
  Values of keyword fields: the scalars that structured context carries, and \<open>PySelf\<close>,
  a reference to the logger on which the method is called.
\<close>

datatype py_value = PyNone | PyBool bool | PyInt int | PyStr string | PySelf

fun truthy :: "py_value \<Rightarrow> bool" where
  "truthy PyNone = False"
| "truthy (PyBool b) = b"
| "truthy (PyInt i) = (i \<noteq> 0)"
| "truthy (PyStr s) = (s \<noteq> [])"
| "truthy PySelf = True"

type_synonym kwargs = "(string \<times> py_value) list"

text \<open>
  An exception object: the name of its class, its \<open>str\<close>, and its \<open>__cause__\<close>.
\<close>

datatype exn = Exn (exn_type: string) (exn_str: string) (cause: "exn option")

text \<open>
  \<open>sys.exc_info()\<close>: None when no exception is being handled, else the exception
  together with the list that \<open>traceback.format_exception\<close> returns for it.
\<close>

type_synonym exc_info = "(exn \<times> string list) option"

text \<open>
  What a call reads from its surroundings: the clock (already in ISO format), the call
  site found by the logging framework, and the exception being handled.
\<close>

record ambient =
  now :: string
  module :: string
  funcName :: string
  lineno :: int
  sys_exc_info :: exc_info

text \<open>
  An \<open>EnvironmentLogger\<close>: the name and level of its \<open>logging.Logger\<close>, the level
  inherited from the ancestors of that logger (used when its own level is NOTSET),
  the cached environment, the current trace id, and what its console handler has written.
\<close>

record env_logger =
  logger_name :: string
  level :: nat
  parent_level :: nat
  environment :: string
  current_trace_id :: "string option"
  written :: "string list"

datatype severity = DEBUG | INFO | WARNING | ERROR | CRITICAL

fun levelno :: "severity \<Rightarrow> nat" where
  "levelno DEBUG = 10"
| "levelno INFO = 20"
| "levelno WARNING = 30"
| "levelno ERROR = 40"
| "levelno CRITICAL = 50"

fun levelname :: "severity \<Rightarrow> string" where
  "levelname DEBUG = ''DEBUG''"
| "levelname INFO = ''INFO''"
| "levelname WARNING = ''WARNING''"
| "levelname ERROR = ''ERROR''"
| "levelname CRITICAL = ''CRITICAL''"

text \<open>A \<open>logging.LogRecord\<close>, with the attributes the formatter reads.\<close>

record log_record =
  rec_levelname :: string
  rec_name :: string
  rec_message :: string
  rec_module :: string
  rec_funcName :: string
  rec_lineno :: int
  rec_exc_info :: "exc_info option"
  rec_extra :: kwargs

section \<open>The formatter (\<open>CustomFormatter.format\<close>)\<close>

text \<open>
  \<open>getattr(logger_instance, 'current_trace_id', None)\<close> and
  \<open>getattr(logger_instance, 'environment', 'unknown')\<close>: only the logger has these
  attributes. The first argument is the logger that \<open>PySelf\<close> refers to.
\<close>

fun getattr_current_trace_id :: "env_logger \<Rightarrow> py_value \<Rightarrow> string option" where
  "getattr_current_trace_id self PySelf = current_trace_id self"
| "getattr_current_trace_id self v = None"

fun getattr_environment :: "env_logger \<Rightarrow> py_value \<Rightarrow> string" where
  "getattr_environment self PySelf = environment self"
| "getattr_environment self v = ''unknown''"

definition json_opt :: "string option \<Rightarrow> json" where
  "json_opt v = (case v of None \<Rightarrow> JNull | Some s \<Rightarrow> JStr s)"

text \<open>The \<open>while\<close> loop that follows \<open>__cause__\<close> as long as there is one.\<close>

fun root_cause :: "exn \<Rightarrow> exn" where
  "root_cause (Exn t m None) = Exn t m None"
| "root_cause (Exn t m (Some c)) = root_cause c"

text \<open>\<open>tb_lines[-10:]\<close>\<close>

definition last10 :: "'a list \<Rightarrow> 'a list" where
  "last10 xs = drop (length xs - 10) xs"

text \<open>The five keys added when \<open>record.exc_info\<close> is truthy.\<close>

definition exception_fields :: "exc_info \<Rightarrow> (string \<times> json) list" where
  "exception_fields ei =
     (case ei of
        None \<Rightarrow>
          [(''exception_type'', JNull), (''exception_message'', JNull),
           (''root_cause_type'', JNull), (''root_cause_message'', JNull),
           (''traceback'', JStr [])]
      | Some (exc_value, tb_lines) \<Rightarrow>
          (let root_exc = root_cause exc_value;
               tb_str = (if tb_lines \<noteq> [] then strip (concat (last10 tb_lines)) else [])
           in [(''exception_type'', JStr (exn_type exc_value)),
               (''exception_message'', JStr (exn_str exc_value)),
               (''root_cause_type'', JStr (exn_type root_exc)),
               (''root_cause_message'', JStr (exn_str root_exc)),
               (''traceback'', JStr tb_str)]))"

text \<open>
  The dictionary \<open>log_data\<close> that \<open>format\<close> builds, in insertion order. \<open>self\<close> is the
  logger making the call, in its state at the time of formatting; \<open>ts\<close> is the clock.
\<close>

definition log_data :: "env_logger \<Rightarrow> string \<Rightarrow> log_record \<Rightarrow> (string \<times> json) list" where
  "log_data self ts r =
     (let logger_instance = map_of (rec_extra r) ''logger_instance'';
          trace_id = (case logger_instance of
                        None \<Rightarrow> None
                      | Some v \<Rightarrow> if truthy v then getattr_current_trace_id self v else None);
          env = (case logger_instance of
                   None \<Rightarrow> ''unknown''
                 | Some v \<Rightarrow> if truthy v then getattr_environment self v else ''unknown'')
      in [(''timestamp'', JStr ts),
          (''level'', JStr (rec_levelname r)),
          (''environment'', JStr env),
          (''trace_id'', json_opt trace_id),
          (''logger'', JStr (rec_name r)),
          (''message'', JStr (rec_message r)),
          (''module'', JStr (rec_module r)),
          (''function'', JStr (rec_funcName r)),
          (''line'', JInt (rec_lineno r))]
         @ (case rec_exc_info r of None \<Rightarrow> [] | Some ei \<Rightarrow> exception_fields ei))"

definition format :: "env_logger \<Rightarrow> string \<Rightarrow> log_record \<Rightarrow> string" where
  "format self ts r = json_dumps (log_data self ts r)"

section \<open>The logging framework under the wrapper\<close>

text \<open>
  The part of Python's \<open>logging\<close> that the wrapper drives. A logger whose own level
  is NOTSET takes the level of its ancestors. The switches \<open>logging.disable\<close> and
  \<open>Logger.disabled\<close>, which the program never touches, stay at their defaults.
\<close>

definition getEffectiveLevel :: "env_logger \<Rightarrow> nat" where
  "getEffectiveLevel lg = (if level lg \<noteq> 0 then level lg else parent_level lg)"

definition isEnabledFor :: "env_logger \<Rightarrow> nat \<Rightarrow> bool" where
  "isEnabledFor lg n = (getEffectiveLevel lg \<le> n)"

text \<open>
  The names that \<open>Logger.makeRecord\<close> refuses in \<open>extra\<close> with a KeyError:
  \<open>message\<close>, \<open>asctime\<close> and the attributes every LogRecord has (as of Python 3.12,
  where \<open>taskName\<close> joined them). The keys are tested in the order of the dictionary.
\<close>

definition reserved_keys :: "string list" where
  "reserved_keys = [''message'', ''asctime'', ''name'', ''msg'', ''args'', ''levelname'',
     ''levelno'', ''pathname'', ''filename'', ''module'', ''exc_info'', ''exc_text'',
     ''stack_info'', ''lineno'', ''funcName'', ''created'', ''msecs'', ''relativeCreated'',
     ''thread'', ''threadName'', ''taskName'', ''processName'', ''process'']"

definition makeRecord ::
  "ambient \<Rightarrow> env_logger \<Rightarrow> severity \<Rightarrow> string \<Rightarrow> exc_info option \<Rightarrow> kwargs
     \<Rightarrow> py_error + log_record" where
  "makeRecord ctx lg sev msg ei extra =
     (case find (\<lambda>k. k \<in> set reserved_keys) (map fst extra) of
        Some k \<Rightarrow> Inl (KeyError k)
      | None \<Rightarrow>
          Inr \<lparr> rec_levelname = levelname sev, rec_name = logger_name lg,
                rec_message = msg, rec_module = module ctx,
                rec_funcName = funcName ctx, rec_lineno = lineno ctx,
                rec_exc_info = ei, rec_extra = extra \<rparr>)"

text \<open>
  \<open>Logger.debug\<close>, \<open>info\<close>, \<open>warning\<close>, \<open>error\<close>, \<open>critical\<close> with \<open>extra\<close>: nothing
  happens below the effective level; otherwise the record is made and the console
  handler writes its formatted text and a newline.
\<close>

definition logger_log ::
  "ambient \<Rightarrow> env_logger \<Rightarrow> severity \<Rightarrow> string \<Rightarrow> exc_info option \<Rightarrow> kwargs
     \<Rightarrow> py_error + env_logger" where
  "logger_log ctx lg sev msg ei extra =
     (if isEnabledFor lg (levelno sev) then
        (case makeRecord ctx lg sev msg ei extra of
           Inl e \<Rightarrow> Inl e
         | Inr r \<Rightarrow> Inr (lg\<lparr>written := written lg @ [format lg (now ctx) r @ [CHR 0x0A]]\<rparr>))
      else Inr lg)"

text \<open>\<open>Logger.exception\<close> is \<open>error\<close> with \<open>exc_info = sys.exc_info()\<close>.\<close>

definition logger_exception ::
  "ambient \<Rightarrow> env_logger \<Rightarrow> string \<Rightarrow> kwargs \<Rightarrow> py_error + env_logger" where
  "logger_exception ctx lg msg extra =
     logger_log ctx lg ERROR msg (Some (sys_exc_info ctx)) extra"

section \<open>\<open>EnvironmentLogger\<close>: trace id and log calls\<close>

definition set_trace_id :: "env_logger \<Rightarrow> string \<Rightarrow> env_logger" where
  "set_trace_id self trace_id = self\<lparr>current_trace_id := Some trace_id\<rparr>"

definition clear_trace_id :: "env_logger \<Rightarrow> env_logger" where
  "clear_trace_id self = self\<lparr>current_trace_id := None\<rparr>"

text \<open>\<open>trace_id or self.current_trace_id\<close>: an empty string is falsy.\<close>

definition py_or :: "string option \<Rightarrow> string option \<Rightarrow> string option" where
  "py_or a b = (case a of None \<Rightarrow> b | Some s \<Rightarrow> if s \<noteq> [] then Some s else b)"

text \<open>\<open>d[k] = v\<close> on a dictionary kept in insertion order.\<close>

fun dict_set :: "('k \<times> 'v) list \<Rightarrow> 'k \<Rightarrow> 'v \<Rightarrow> ('k \<times> 'v) list" where
  "dict_set [] k v = [(k, v)]"
| "dict_set ((k', v') # d) k v =
     (if k' = k then (k, v) # d else (k', v') # dict_set d k v)"

text \<open>The dictionary display \<open>{'logger_instance': self, **kwargs}\<close>.\<close>

definition make_extra :: "kwargs \<Rightarrow> kwargs" where
  "make_extra kwargs =
     foldl (\<lambda>d kv. dict_set d (fst kv) (snd kv)) [(''logger_instance'', PySelf)] kwargs"

text \<open>
  The result of a call: the exception it raised, if any, and the logger afterwards.
  In \<open>_log_with_context\<close> the level is one of the five names its callers pass, so
  \<open>getattr(self.logger, level.lower())\<close> is the logger's method of that severity.
  There is no \<open>try\<close> around the logging call: when it raises, the last assignment,
  which restores the trace id, is not reached.
\<close>

type_synonym outcome = "py_error option \<times> env_logger"

definition log_with_context ::
  "ambient \<Rightarrow> env_logger \<Rightarrow> severity \<Rightarrow> string \<Rightarrow> string option \<Rightarrow> kwargs \<Rightarrow> outcome" where
  "log_with_context ctx self sev message trace_id kwargs =
     (let effective_trace_id = py_or trace_id (current_trace_id self);
          old_trace_id = current_trace_id self;
          self1 = self\<lparr>current_trace_id := effective_trace_id\<rparr>;
          extra = make_extra kwargs
      in case logger_log ctx self1 sev message None extra of
           Inl e \<Rightarrow> (Some e, self1)
         | Inr self2 \<Rightarrow> (None, self2\<lparr>current_trace_id := old_trace_id\<rparr>))"

text \<open>
  The five public methods pass \<open>**kwargs\<close> on to \<open>_log_with_context\<close>; a keyword that
  names one of its parameters makes that call a TypeError, before its body runs.
\<close>

definition log_with_context_params :: "string list" where
  "log_with_context_params = [''self'', ''level'', ''message'', ''trace_id'']"

definition call_log_with_context ::
  "ambient \<Rightarrow> env_logger \<Rightarrow> severity \<Rightarrow> string \<Rightarrow> string option \<Rightarrow> kwargs \<Rightarrow> outcome" where
  "call_log_with_context ctx self sev message trace_id kwargs =
     (if list_ex (\<lambda>k. k \<in> set log_with_context_params) (map fst kwargs)
      then (Some TypeError, self)
      else log_with_context ctx self sev message trace_id kwargs)"

definition debug :: "ambient \<Rightarrow> env_logger \<Rightarrow> string \<Rightarrow> string option \<Rightarrow> kwargs \<Rightarrow> outcome" where
  "debug ctx self message trace_id kwargs =
     call_log_with_context ctx self DEBUG message trace_id kwargs"

definition info :: "ambient \<Rightarrow> env_logger \<Rightarrow> string \<Rightarrow> string option \<Rightarrow> kwargs \<Rightarrow> outcome" where
  "info ctx self message trace_id kwargs =
     call_log_with_context ctx self INFO message trace_id kwargs"

definition warning :: "ambient \<Rightarrow> env_logger \<Rightarrow> string \<Rightarrow> string option \<Rightarrow> kwargs \<Rightarrow> outcome" where
  "warning ctx self message trace_id kwargs =
     call_log_with_context ctx self WARNING message trace_id kwargs"

definition error :: "ambient \<Rightarrow> env_logger \<Rightarrow> string \<Rightarrow> string option \<Rightarrow> kwargs \<Rightarrow> outcome" where
  "error ctx self message trace_id kwargs =
     call_log_with_context ctx self ERROR message trace_id kwargs"

definition critical :: "ambient \<Rightarrow> env_logger \<Rightarrow> string \<Rightarrow> string option \<Rightarrow> kwargs \<Rightarrow> outcome" where
  "critical ctx self message trace_id kwargs =
     call_log_with_context ctx self CRITICAL message trace_id kwargs"

definition exception :: "ambient \<Rightarrow> env_logger \<Rightarrow> string \<Rightarrow> string option \<Rightarrow> kwargs \<Rightarrow> outcome" where
  "exception ctx self message trace_id kwargs =
     (let effective_trace_id = py_or trace_id (current_trace_id self);
          old_trace_id = current_trace_id self;
          self1 = self\<lparr>current_trace_id := effective_trace_id\<rparr>;
          extra = make_extra kwargs
      in case logger_exception ctx self1 message extra of
           Inl e \<Rightarrow> (Some e, self1)
         | Inr self2 \<Rightarrow> (None, self2\<lparr>current_trace_id := old_trace_id\<rparr>))"

text \<open>The six logging operations of the public interface, for statements about all of them.\<close>

datatype log_method =
  LogDebug | LogInfo | LogWarning | LogError | LogCritical | LogException

fun invoke ::
  "log_method \<Rightarrow> ambient \<Rightarrow> env_logger \<Rightarrow> string \<Rightarrow> string option \<Rightarrow> kwargs \<Rightarrow> outcome" where
  "invoke LogDebug = debug"
| "invoke LogInfo = info"
| "invoke LogWarning = warning"
| "invoke LogError = error"
| "invoke LogCritical = critical"
| "invoke LogException = exception"

section \<open>Construction (\<open>EnvironmentLogger.__init__\<close>, \<open>get_logger\<close>)\<close>

text \<open>
  The attributes of Python's \<open>logging\<close> module whose names consist of capitals, which
  are the only ones \<open>getattr(logging, level.upper())\<close> can reach: the level constants,
  a format string and a dictionary of formatting styles.
\<close>

datatype py_object = ObjInt nat | ObjStr string | ObjDict

definition logging_attributes :: "(string \<times> py_object) list" where
  "logging_attributes =
     [(''CRITICAL'', ObjInt 50), (''FATAL'', ObjInt 50), (''ERROR'', ObjInt 40),
      (''WARNING'', ObjInt 30), (''WARN'', ObjInt 30), (''INFO'', ObjInt 20),
      (''DEBUG'', ObjInt 10), (''NOTSET'', ObjInt 0),
      (''BASIC_FORMAT'', ObjStr ''%(levelname)s:%(name)s:%(message)s''),
      (''_STYLES'', ObjDict)]"

text \<open>\<open>logging._nameToLevel\<close>, the level names that \<open>setLevel\<close> accepts as text.\<close>

definition nameToLevel :: "(string \<times> nat) list" where
  "nameToLevel =
     [(''CRITICAL'', 50), (''FATAL'', 50), (''ERROR'', 40), (''WARN'', 30),
      (''WARNING'', 30), (''INFO'', 20), (''DEBUG'', 10), (''NOTSET'', 0)]"

text \<open>\<open>logging._checkLevel\<close>, called by \<open>Logger.setLevel\<close>.\<close>

fun checkLevel :: "py_object \<Rightarrow> py_error + nat" where
  "checkLevel (ObjInt n) = Inr n"
| "checkLevel (ObjStr s) =
     (case map_of nameToLevel s of None \<Rightarrow> Inl ValueError | Some n \<Rightarrow> Inr n)"
| "checkLevel ObjDict = Inl TypeError"

text \<open>
  The constructor. \<open>getenv\<close> is the process environment and \<open>inherited\<close> the effective
  level of the ancestors of the named logger.
\<close>

definition init ::
  "environ \<Rightarrow> nat \<Rightarrow> string \<Rightarrow> string \<Rightarrow> py_error + env_logger" where
  "init getenv inherited name lvl =
     (case map_of logging_attributes (upper lvl) of
        None \<Rightarrow> Inl AttributeError
      | Some obj \<Rightarrow>
          (case checkLevel obj of
             Inl e \<Rightarrow> Inl e
           | Inr n \<Rightarrow>
               Inr \<lparr> logger_name = name, level = n, parent_level = inherited,
                     environment = detect_environment getenv,
                     current_trace_id = None, written = [] \<rparr>))"

definition get_logger ::
  "environ \<Rightarrow> nat \<Rightarrow> string \<Rightarrow> string \<Rightarrow> py_error + env_logger" where
  "get_logger getenv inherited name lvl = init getenv inherited name lvl"

section \<open>Trace id generation (\<open>setup_trace_id\<close>)\<close>

text \<open>\<open>str.zfill\<close>: zeros are inserted on the left, after a leading sign.\<close>

definition zfill :: "nat \<Rightarrow> string \<Rightarrow> string" where
  "zfill width s =
     (if width \<le> length s then s
      else (case s of
              [] \<Rightarrow> replicate width CHR ''0''
            | c # cs \<Rightarrow>
                if c = CHR ''+'' \<or> c = CHR ''-''
                then c # replicate (width - length s) CHR ''0'' @ cs
                else replicate (width - length s) CHR ''0'' @ s))"

text \<open>
  \<open>pid\<close> is \<open>os.getpid()\<close>, \<open>hostname\<close> is \<open>socket.gethostname()\<close> and \<open>guid\<close> is
  \<open>str(uuid.uuid4())\<close>. The result is the returned string and the logger afterwards.
\<close>

definition setup_trace_id ::
  "int \<Rightarrow> string \<Rightarrow> string \<Rightarrow> env_logger \<Rightarrow> string \<times> env_logger" where
  "setup_trace_id pid hostname guid logger =
     (let zero_pad = zfill 16 ''0'';
          trace_id = str_int pid @ ''@'' @ hostname @ ''/'' @ guid @ ''-'' @ zero_pad
      in (trace_id, set_trace_id logger trace_id))"

section \<open>Notions of the specification\<close>

text \<open>
  The severity at which each public operation logs; \<open>exception\<close> logs at ERROR.
\<close>

fun method_severity :: "log_method \<Rightarrow> severity" where
  "method_severity LogDebug = DEBUG"
| "method_severity LogInfo = INFO"
| "method_severity LogWarning = WARNING"
| "method_severity LogError = ERROR"
| "method_severity LogCritical = CRITICAL"
| "method_severity LogException = ERROR"

text \<open>
  The nine base fields of a LogRecord as the specification lists them, for a call at
  severity \<open>sev\<close> with message \<open>msg\<close> whose effective trace id is \<open>trace\<close>.
\<close>

definition base_record ::
  "ambient \<Rightarrow> env_logger \<Rightarrow> severity \<Rightarrow> string \<Rightarrow> string option \<Rightarrow> (string \<times> json) list" where
  "base_record ctx lg sev msg trace =
     [(''timestamp'', JStr (now ctx)),
      (''level'', JStr (levelname sev)),
      (''environment'', JStr (environment lg)),
      (''trace_id'', json_opt trace),
      (''logger'', JStr (logger_name lg)),
      (''message'', JStr msg),
      (''module'', JStr (module ctx)),
      (''function'', JStr (funcName ctx)),
      (''line'', JInt (lineno ctx))]"

definition base_keys :: "string list" where
  "base_keys = [''timestamp'', ''level'', ''environment'', ''trace_id'', ''logger'',
                ''message'', ''module'', ''function'', ''line'']"

definition exception_keys :: "string list" where
  "exception_keys = [''exception_type'', ''exception_message'', ''root_cause_type'',
                     ''root_cause_message'', ''traceback'']"

text \<open>
  The exception fields of the record of a call: those of the exception being handled
  for \<open>exception\<close>, none for the leveled calls.
\<close>

definition exception_part :: "log_method \<Rightarrow> ambient \<Rightarrow> (string \<times> json) list" where
  "exception_part m ctx =
     (if m = LogException then exception_fields (sys_exc_info ctx) else [])"

text \<open>
  Keyword fields are plain when none of their names is \<open>logger_instance\<close>, a parameter
  of \<open>_log_with_context\<close> or a name that \<open>makeRecord\<close> refuses.
\<close>

definition plain_fields :: "kwargs \<Rightarrow> bool" where
  "plain_fields kwargs =
     list_all (\<lambda>k. k \<notin> set (''logger_instance'' # log_with_context_params @ reserved_keys))
       (map fst kwargs)"

text \<open>
  A text is a single line when it has no character below 0x20, so in particular
  neither a line feed nor a carriage return.
\<close>

definition single_line :: "string \<Rightarrow> bool" where
  "single_line s = list_all (\<lambda>c. 32 \<le> (of_char c :: nat)) s"


text \<open>Sample values for the closed statements below.\<close>

definition sample_ambient :: ambient where
  "sample_ambient = \<lparr> now = ''2024-05-01T10:00:00+00:00'', module = ''logger'',
                       funcName = ''_log_with_context'', lineno = 159,
                       sys_exc_info = None \<rparr>"

definition sample_logger :: env_logger where
  "sample_logger = \<lparr> logger_name = ''RMRForecast'', level = 20, parent_level = 30,
                      environment = ''development'', current_trace_id = Some ''X'',
                      written = [] \<rparr>"



section \<open>Properties of the environment classifier\<close>

lemma startswith_iff: "startswith s p \<longleftrightarrow> (\<exists>b. s = p @ b)"
  by (induction s p rule: startswith.induct) auto

lemma py_in_iff: "py_in sub s \<longleftrightarrow> (\<exists>a b. s = a @ sub @ b)"
proof (induction s)
  case Nil
  then show ?case by auto
next
  case (Cons c cs)
  show ?case
  proof
    assume "py_in sub (c # cs)"
    then consider "startswith (c # cs) sub" | "py_in sub cs" by auto
    then show "\<exists>a b. c # cs = a @ sub @ b"
    proof cases
      case 1
      then obtain b where "c # cs = sub @ b" by (auto simp: startswith_iff)
      then have "c # cs = [] @ sub @ b" by simp
      then show ?thesis by blast
    next
      case 2
      then obtain a b where "cs = a @ sub @ b" using Cons.IH by blast
      then have "c # cs = (c # a) @ sub @ b" by simp
      then show ?thesis by blast
    qed
  next
    assume "\<exists>a b. c # cs = a @ sub @ b"
    then obtain a b where ab: "c # cs = a @ sub @ b" by blast
    show "py_in sub (c # cs)"
    proof (cases a)
      case Nil
      with ab have "startswith (c # cs) sub" by (auto simp: startswith_iff)
      then show ?thesis by simp
    next
      case (Cons x a')
      with ab have "cs = a' @ sub @ b" by simp
      then have "py_in sub cs" using Cons.IH by blast
      then show ?thesis by simp
    qed
  qed
qed

lemma detect_loop_skip:
  "\<forall>x\<in>set pre. x = None \<or> x = Some [] \<Longrightarrow> detect_loop (pre @ xs) = detect_loop xs"
  by (induction pre) auto

lemma detect_loop_first:
  assumes "\<forall>x\<in>set pre. x = None \<or> x = Some []" and "v \<noteq> []"
  shows "detect_loop (pre @ Some v # post) = classify v"
  using assms by (simp add: detect_loop_skip)









text \<open>
  C6. Let \<open>v\<close> be the first non-empty candidate signal, carrying the platform marker
  \<open>lambda\<close>. The classifier tests the lowercase \<open>v\<close> for substrings in the order
  prod/production, staging/stage, hotfix, and answers development when none occurs.
  In particular a value containing both \<open>staging\<close> and \<open>prod\<close> resolves to production.
\<close>

theorem detect_environment_platform_marker:
  assumes "env_sources getenv = pre @ Some v # post"
    and "\<forall>x\<in>set pre. x = None \<or> x = Some []"
    and "v \<noteq> []"
    and "py_in ''lambda'' (lower v)"
  shows "detect_environment getenv =
           (if py_in ''prod'' (lower v) \<or> py_in ''production'' (lower v) then ''production''
            else if py_in ''staging'' (lower v) \<or> py_in ''stage'' (lower v) then ''staging''
            else if py_in ''hotfix'' (lower v) then ''hotfixes''
            else ''development'')
         \<and> ((\<exists>a b. lower v = a @ ''staging'' @ b) \<and> (\<exists>a b. lower v = a @ ''prod'' @ b)
              \<longrightarrow> detect_environment getenv = ''production'')"
proof -
  have d: "detect_environment getenv = classify v"
    unfolding detect_environment_def assms(1) using assms(2,3) by (rule detect_loop_first)
  have c: "classify v =
           (if py_in ''prod'' (lower v) \<or> py_in ''production'' (lower v) then ''production''
            else if py_in ''staging'' (lower v) \<or> py_in ''stage'' (lower v) then ''staging''
            else if py_in ''hotfix'' (lower v) then ''hotfixes''
            else ''development'')"
    using assms(4) by (simp add: classify_def)
  have p: "(\<exists>a b. lower v = a @ ''prod'' @ b) \<longleftrightarrow> py_in ''prod'' (lower v)"
    by (simp only: py_in_iff)
  show ?thesis unfolding d c p by simp
qed

theorem detect_environment_platform_marker_witness:
  "detect_environment
     (Map.empty(''AWS_LAMBDA_FUNCTION_NAME'' \<mapsto> ''Lambda-Staging-to-PROD-sync''))
   = ''production''"
proof -
  let ?v = "''Lambda-Staging-to-PROD-sync''"
  let ?g = "Map.empty(''AWS_LAMBDA_FUNCTION_NAME'' \<mapsto> ?v)"
  have g1: "env_sources ?g = [None, None, None] @ Some ?v # [Some ''development'']"
    by (simp add: env_sources_def)
  have g2: "\<forall>x\<in>set [None, None, None :: string option]. x = None \<or> x = Some []"
    by simp
  have g3: "?v \<noteq> []" by simp
  have g4: "py_in ''lambda'' (lower ?v)" by code_simp
  have l: "lower ?v = ''lambda-staging-to-prod-sync''" by code_simp
  have a: "\<exists>a b. lower ?v = a @ ''staging'' @ b"
    unfolding l by (rule exI[of _ "''lambda-''"], rule exI[of _ "''-to-prod-sync''"]) simp
  have b: "\<exists>a b. lower ?v = a @ ''prod'' @ b"
    unfolding l by (rule exI[of _ "''lambda-staging-to-''"], rule exI[of _ "''-sync''"]) simp
  show ?thesis
    using detect_environment_platform_marker[OF g1 g2 g3 g4] a b by blast
qed

section \<open>Properties of the trace id generator\<close>

lemma digit_char_decimal: "k < 10 \<Longrightarrow> digit_char k \<in> set ''0123456789''"
proof -
  assume "k < 10"
  then have "k \<in> {0, 1, 2, 3, 4, 5, 6, 7, 8, 9}" by auto
  then show ?thesis by (auto simp: digit_char_def)
qed

lemma str_nat_digits: "set (str_nat n) \<subseteq> set ''0123456789''"
proof (induction n rule: str_nat.induct)
  case (1 n)
  show ?case
  proof (cases "n < 10")
    case True
    then show ?thesis using digit_char_decimal[of n] by (subst str_nat.simps) simp
  next
    case False
    have "n mod 10 < 10" by simp
    then have "digit_char (n mod 10) \<in> set ''0123456789''" by (rule digit_char_decimal)
    with False 1 show ?thesis by (subst str_nat.simps) simp
  qed
qed

lemma str_nat_nonempty: "str_nat k \<noteq> []"
  by (subst str_nat.simps) simp

lemma zero_pad: "zfill 16 ''0'' = ''0000000000000000''"
  by code_simp

lemma sixteen_zeros: "replicate 16 CHR ''0'' = ''0000000000000000''"
  by code_simp

text \<open>
  C7. \<open>setup_trace_id\<close> returns the process id in decimal, \<open>@\<close>, the host name,
  \<open>/\<close>, the UUID text, \<open>-\<close> and exactly sixteen zero characters; the logger it
  returns differs from the one it was given only in its current trace id, which is
  the returned string.
\<close>

theorem setup_trace_id_shape:
  "fst (setup_trace_id pid hostname guid logger)
     = str_int pid @ ''@'' @ hostname @ ''/'' @ guid @ ''-'' @ replicate 16 CHR ''0''
   \<and> snd (setup_trace_id pid hostname guid logger)
     = logger\<lparr>current_trace_id := Some (fst (setup_trace_id pid hostname guid logger))\<rparr>
   \<and> current_trace_id (snd (setup_trace_id pid hostname guid logger))
     = Some (fst (setup_trace_id pid hostname guid logger))
   \<and> (0 \<le> pid \<longrightarrow> str_int pid \<noteq> [] \<and> set (str_int pid) \<subseteq> set ''0123456789'')"
  using str_nat_digits[of "nat pid"] str_nat_nonempty[of "nat pid"]
  by (simp add: setup_trace_id_def zero_pad sixteen_zeros set_trace_id_def str_int_def Let_def)

theorem setup_trace_id_shape_witness:
  "fst (setup_trace_id 4242 ''host-1'' ''123e4567-e89b-42d3-a456-426614174000'' sample_logger)
     = ''4242@host-1/123e4567-e89b-42d3-a456-426614174000-0000000000000000''
   \<and> current_trace_id
        (snd (setup_trace_id 4242 ''host-1'' ''123e4567-e89b-42d3-a456-426614174000''
                sample_logger))
     = Some (fst (setup_trace_id 4242 ''host-1'' ''123e4567-e89b-42d3-a456-426614174000''
                sample_logger))
   \<and> (0::int) \<le> 4242
   \<and> set (str_int 4242) \<subseteq> set ''0123456789''"
proof -
  let ?r = "setup_trace_id 4242 ''host-1'' ''123e4567-e89b-42d3-a456-426614174000''
              sample_logger"
  note t = setup_trace_id_shape[of 4242 "''host-1''"
             "''123e4567-e89b-42d3-a456-426614174000''" sample_logger]
  have s: "str_int 4242 = ''4242''"
    by (simp add: str_int_def str_nat.simps digit_char_def)
  have c: "str_int 4242 @ ''@'' @ ''host-1'' @ ''/''
             @ ''123e4567-e89b-42d3-a456-426614174000'' @ ''-'' @ replicate 16 CHR ''0''
           = ''4242@host-1/123e4567-e89b-42d3-a456-426614174000-0000000000000000''"
    unfolding s sixteen_zeros by simp
  have p: "(0::int) \<le> 4242" by simp
  have 1: "fst ?r = ''4242@host-1/123e4567-e89b-42d3-a456-426614174000-0000000000000000''"
    using t[THEN conjunct1] by (simp only: c)
  have 2: "current_trace_id (snd ?r) = Some (fst ?r)"
    using t[THEN conjunct2, THEN conjunct2, THEN conjunct1] .
  have 3: "set (str_int 4242) \<subseteq> set ''0123456789''"
    using t[THEN conjunct2, THEN conjunct2, THEN conjunct2, rule_format, OF p]
    by (rule conjunct2)
  show ?thesis using 1 2 3 p by (simp only: simp_thms)
qed

section \<open>Properties of construction\<close>

lemma upper_names:
  "upper ''DEBUG'' = ''DEBUG''" "upper ''INFO'' = ''INFO''" "upper ''WARNING'' = ''WARNING''"
  "upper ''ERROR'' = ''ERROR''" "upper ''CRITICAL'' = ''CRITICAL''"
  by (simp_all add: upper_def upper_char_def ascii_uppercase_def ascii_lowercase_def)

lemma five_levels:
  "map_of nameToLevel ''DEBUG'' = Some 10" "map_of nameToLevel ''INFO'' = Some 20"
  "map_of nameToLevel ''WARNING'' = Some 30" "map_of nameToLevel ''ERROR'' = Some 40"
  "map_of nameToLevel ''CRITICAL'' = Some 50"
  by (simp_all add: nameToLevel_def)

lemma level_lookup:
  "map_of nameToLevel u = Some n \<Longrightarrow> map_of logging_attributes u = Some (ObjInt n)"
  by (auto simp: nameToLevel_def logging_attributes_def split: if_splits)

lemma level_lookup_None:
  "map_of nameToLevel u = None \<Longrightarrow>
     map_of logging_attributes u = None
     \<or> map_of logging_attributes u = Some (ObjStr ''%(levelname)s:%(name)s:%(message)s'')
     \<or> map_of logging_attributes u = Some ObjDict"
  by (auto simp: nameToLevel_def logging_attributes_def split: if_splits)

lemma basic_format_not_level:
  "checkLevel (ObjStr ''%(levelname)s:%(name)s:%(message)s'') = Inl ValueError"
  by (simp add: nameToLevel_def)

lemma init_level:
  "map_of logging_attributes (upper lvl) = Some (ObjInt n) \<Longrightarrow>
   get_logger getenv inherited name lvl =
        Inr \<lparr> logger_name = name, level = n, parent_level = inherited,
              environment = detect_environment getenv,
              current_trace_id = None, written = [] \<rparr>"
  by (simp add: get_logger_def init_def)

text \<open>
  C8. A level name is valid when its upper-case form is one of the level names of the
  logging framework, among them DEBUG, INFO, WARNING, ERROR and CRITICAL. For a valid
  name \<open>get_logger\<close> returns a logger with that level, the detected environment and
  no trace id; for every other name it raises, and no logger is made.
\<close>

theorem get_logger_level_names:
  "(map_of nameToLevel (upper lvl) = Some n \<longrightarrow>
      get_logger getenv inherited name lvl =
        Inr \<lparr> logger_name = name, level = n, parent_level = inherited,
              environment = detect_environment getenv,
              current_trace_id = None, written = [] \<rparr>)
   \<and> (map_of nameToLevel (upper lvl) = None \<longrightarrow>
        (\<exists>e. get_logger getenv inherited name lvl = Inl e))
   \<and> (lvl \<in> {''DEBUG'', ''INFO'', ''WARNING'', ''ERROR'', ''CRITICAL''} \<longrightarrow>
        (\<exists>lg. get_logger getenv inherited name lvl = Inr lg
              \<and> map_of nameToLevel lvl = Some (level lg)))"
proof (intro conjI impI)
  assume "map_of nameToLevel (upper lvl) = Some n"
  then have "map_of logging_attributes (upper lvl) = Some (ObjInt n)" by (rule level_lookup)
  then show "get_logger getenv inherited name lvl =
        Inr \<lparr> logger_name = name, level = n, parent_level = inherited,
              environment = detect_environment getenv,
              current_trace_id = None, written = [] \<rparr>"
    by (rule init_level)
next
  assume "map_of nameToLevel (upper lvl) = None"
  then have "map_of logging_attributes (upper lvl) = None
     \<or> map_of logging_attributes (upper lvl)
         = Some (ObjStr ''%(levelname)s:%(name)s:%(message)s'')
     \<or> map_of logging_attributes (upper lvl) = Some ObjDict"
    by (rule level_lookup_None)
  then show "\<exists>e. get_logger getenv inherited name lvl = Inl e"
    by (elim disjE)
       (simp_all add: get_logger_def init_def basic_format_not_level
          del: checkLevel.simps(2))
next
  assume "lvl \<in> {''DEBUG'', ''INFO'', ''WARNING'', ''ERROR'', ''CRITICAL''}"
  then have "lvl = ''DEBUG'' \<or> lvl = ''INFO'' \<or> lvl = ''WARNING''
    \<or> lvl = ''ERROR'' \<or> lvl = ''CRITICAL''"
    by (simp only: insert_iff empty_iff simp_thms)
  then have "\<exists>k. map_of nameToLevel lvl = Some k \<and> map_of nameToLevel (upper lvl) = Some k"
    by (elim disjE) (simp_all only: upper_names five_levels simp_thms option.inject)
  then obtain k where k: "map_of nameToLevel lvl = Some k"
    "map_of nameToLevel (upper lvl) = Some k" by blast
  from k(2) have "map_of logging_attributes (upper lvl) = Some (ObjInt k)"
    by (rule level_lookup)
  from init_level[OF this, of getenv inherited name] k(1)
  show "\<exists>lg. get_logger getenv inherited name lvl = Inr lg
              \<and> map_of nameToLevel lvl = Some (level lg)"
    by simp
qed

theorem get_logger_level_names_witness:
  "get_logger Map.empty 30 ''RMRForecast'' ''info'' =
     Inr \<lparr> logger_name = ''RMRForecast'', level = 20, parent_level = 30,
           environment = ''development'', current_trace_id = None, written = [] \<rparr>
   \<and> (\<exists>e. get_logger Map.empty 30 ''RMRForecast'' ''verbose'' = Inl e)
   \<and> (\<exists>lg. get_logger Map.empty 30 ''RMRForecast'' ''ERROR'' = Inr lg \<and> level lg = 40)"
proof -
  have a: "map_of nameToLevel (upper ''info'') = Some 20"
    by (simp add: upper_def upper_char_def ascii_uppercase_def ascii_lowercase_def
          nameToLevel_def)
  have b: "map_of nameToLevel (upper ''verbose'') = None"
    by (simp add: upper_def upper_char_def ascii_uppercase_def ascii_lowercase_def
          nameToLevel_def)
  have c: "''ERROR'' \<in> {''DEBUG'', ''INFO'', ''WARNING'', ''ERROR'', ''CRITICAL''}" by simp
  have d: "detect_environment Map.empty = ''development''" by code_simp
  have e: "map_of nameToLevel ''ERROR'' = Some 40" by (simp add: nameToLevel_def)
  note t1 = get_logger_level_names[of "''info''" 20 Map.empty 30 "''RMRForecast''"]
  note t2 = get_logger_level_names[of "''verbose''" 0 Map.empty 30 "''RMRForecast''"]
  note t3 = get_logger_level_names[of "''ERROR''" 0 Map.empty 30 "''RMRForecast''"]
  have 1: "get_logger Map.empty 30 ''RMRForecast'' ''info'' =
     Inr \<lparr> logger_name = ''RMRForecast'', level = 20, parent_level = 30,
           environment = ''development'', current_trace_id = None, written = [] \<rparr>"
    using t1[THEN conjunct1, rule_format, OF a] by (simp only: d)
  have 2: "\<exists>e. get_logger Map.empty 30 ''RMRForecast'' ''verbose'' = Inl e"
    using t2[THEN conjunct2, THEN conjunct1, rule_format, OF b] .
  obtain lg where lg: "get_logger Map.empty 30 ''RMRForecast'' ''ERROR'' = Inr lg"
    "map_of nameToLevel ''ERROR'' = Some (level lg)"
    using t3[THEN conjunct2, THEN conjunct2, rule_format, OF c] by blast
  from lg(2) e have "level lg = 40" by simp
  with lg(1) have 3:
    "\<exists>lg. get_logger Map.empty 30 ''RMRForecast'' ''ERROR'' = Inr lg \<and> level lg = 40"
    by blast
  from 1 2 3 show ?thesis by blast
qed

section \<open>Properties of the serialisation\<close>

lemma single_line_simps:
  "single_line []" "single_line (c # s) \<longleftrightarrow> 32 \<le> (of_char c :: nat) \<and> single_line s"
  "single_line (s @ t) \<longleftrightarrow> single_line s \<and> single_line t"
  by (simp_all add: single_line_def)

lemma single_line_concat:
  "(\<And>x. x \<in> set xs \<Longrightarrow> single_line x) \<Longrightarrow> single_line (concat xs)"
  by (induction xs) (simp_all add: single_line_simps)

lemma digit_char_hex: "digit_char k \<in> set ''0123456789abcdef''"
proof -
  have "k mod 16 < length ''0123456789abcdef''" by simp
  then show ?thesis unfolding digit_char_def by (rule nth_mem)
qed

lemma hex_digits_printable: "c \<in> set ''0123456789abcdef'' \<Longrightarrow> 32 \<le> (of_char c :: nat)"
  by auto

lemma digit_char_printable: "32 \<le> (of_char (digit_char k) :: nat)"
  using digit_char_hex by (rule hex_digits_printable)

lemma escape_table_printable:
  "map_of ESCAPE_DCT c = Some e \<Longrightarrow> single_line e"
  by (auto simp: ESCAPE_DCT_def single_line_def split: if_splits)

lemma single_line_escape_char: "single_line (escape_char c)"
proof (cases "map_of ESCAPE_DCT c")
  case None
  then show ?thesis
    by (simp add: escape_char_def single_line_simps digit_char_printable)
next
  case (Some e)
  then show ?thesis using escape_table_printable by (simp add: escape_char_def)
qed

lemma single_line_encode_basestring: "single_line (encode_basestring s)"
  unfolding encode_basestring_def
  by (auto simp: single_line_simps single_line_escape_char intro!: single_line_concat)

lemma single_line_str_nat: "single_line (str_nat n)"
proof (induction n rule: str_nat.induct)
  case (1 n)
  show ?case
  proof (cases "n < 10")
    case True
    then show ?thesis
      by (subst str_nat.simps) (simp add: single_line_simps digit_char_printable)
  next
    case False
    with 1 show ?thesis
      by (subst str_nat.simps) (simp add: single_line_simps digit_char_printable)
  qed
qed

lemma single_line_str_int: "single_line (str_int i)"
  by (simp add: str_int_def single_line_simps single_line_str_nat)

lemma single_line_json_encode: "single_line (json_encode v)"
  by (cases v) (simp_all add: single_line_simps single_line_encode_basestring single_line_str_int)

lemma single_line_json_item: "single_line (json_item kv)"
  by (simp add: json_item_def single_line_simps single_line_encode_basestring
        single_line_json_encode)

lemma single_line_join:
  "single_line sep \<Longrightarrow> (\<And>x. x \<in> set xs \<Longrightarrow> single_line x) \<Longrightarrow> single_line (join sep xs)"
  by (induction sep xs rule: join.induct) (simp_all add: single_line_simps)

lemma single_line_json_dumps: "single_line (json_dumps d)"
proof -
  have "single_line (join '', '' (map json_item d))"
    by (rule single_line_join) (auto simp: single_line_simps single_line_json_item)
  then show ?thesis by (simp add: json_dumps_def single_line_simps)
qed

lemma single_line_no_newline: "single_line s \<Longrightarrow> CHR 0x0A \<notin> set s \<and> CHR 0x0D \<notin> set s"
  by (auto simp: single_line_def list_all_iff)

section \<open>How a log call changes the logger\<close>

lemma map_of_dict_set: "map_of (dict_set d k v) = (map_of d)(k \<mapsto> v)"
  by (induction d) (auto simp: fun_eq_iff)

lemma map_fst_dict_set:
  "map fst (dict_set d k v) = (if k \<in> set (map fst d) then map fst d else map fst d @ [k])"
  by (induction d) force+

lemma keys_dict_set: "fst ` set (dict_set d k v) = insert k (fst ` set d)"
proof -
  have "set (map fst (dict_set d k v)) = insert k (set (map fst d))"
    unfolding map_fst_dict_set by auto
  then show ?thesis by simp
qed

lemma keys_foldl_dict_set:
  "fst ` set (foldl (\<lambda>d kv. dict_set d (fst kv) (snd kv)) d kw) = fst ` set d \<union> fst ` set kw"
  by (induction kw arbitrary: d) (auto simp: keys_dict_set)

lemma map_of_foldl_dict_set:
  "k \<notin> fst ` set kw \<Longrightarrow>
   map_of (foldl (\<lambda>d kv. dict_set d (fst kv) (snd kv)) d kw) k = map_of d k"
  by (induction kw arbitrary: d) (auto simp: map_of_dict_set)

lemma keys_make_extra:
  "set (map fst (make_extra kw)) = insert ''logger_instance'' (fst ` set kw)"
  by (simp add: make_extra_def keys_foldl_dict_set)

lemma logger_instance_make_extra:
  "''logger_instance'' \<notin> fst ` set kw \<Longrightarrow>
   map_of (make_extra kw) ''logger_instance'' = Some PySelf"
  by (simp add: make_extra_def map_of_foldl_dict_set)

lemma logger_instance_not_reserved: "''logger_instance'' \<notin> set reserved_keys"
  by (simp add: reserved_keys_def)

lemma plain_fields_iff:
  "plain_fields kw \<longleftrightarrow>
     ''logger_instance'' \<notin> fst ` set kw
     \<and> (\<forall>k\<in>fst ` set kw. k \<notin> set log_with_context_params)
     \<and> (\<forall>k\<in>fst ` set kw. k \<notin> set reserved_keys)"
  by (auto simp: plain_fields_def list_all_iff image_iff)

lemma plain_fields_params:
  "plain_fields kw \<Longrightarrow> \<not> list_ex (\<lambda>k. k \<in> set log_with_context_params) (map fst kw)"
  by (simp add: plain_fields_iff list_ex_iff)

lemma plain_fields_reserved:
  assumes "plain_fields kw"
  shows "find (\<lambda>k. k \<in> set reserved_keys) (map fst (make_extra kw)) = None"
proof -
  have "\<forall>k\<in>set (map fst (make_extra kw)). k \<notin> set reserved_keys"
    unfolding keys_make_extra using assms logger_instance_not_reserved
    by (simp add: plain_fields_iff)
  then show ?thesis by (simp add: find_None_iff)
qed

lemma plain_fields_logger_instance:
  "plain_fields kw \<Longrightarrow> map_of (make_extra kw) ''logger_instance'' = Some PySelf"
  by (simp add: plain_fields_iff logger_instance_make_extra)

lemma log_data_self:
  assumes "map_of (rec_extra r) ''logger_instance'' = Some PySelf"
  shows "log_data self ts r =
     [(''timestamp'', JStr ts),
      (''level'', JStr (rec_levelname r)),
      (''environment'', JStr (environment self)),
      (''trace_id'', json_opt (current_trace_id self)),
      (''logger'', JStr (rec_name r)),
      (''message'', JStr (rec_message r)),
      (''module'', JStr (rec_module r)),
      (''function'', JStr (rec_funcName r)),
      (''line'', JInt (rec_lineno r))]
     @ (case rec_exc_info r of None \<Rightarrow> [] | Some ei \<Rightarrow> exception_fields ei)"
  using assms by (simp add: log_data_def)

lemma isEnabledFor_trace [simp]:
  "isEnabledFor (lg\<lparr>current_trace_id := t\<rparr>) n = isEnabledFor lg n"
  "isEnabledFor (lg\<lparr>written := w\<rparr>) n = isEnabledFor lg n"
  by (simp_all add: isEnabledFor_def getEffectiveLevel_def)

lemma base_record_frame [simp]:
  "base_record ctx (lg\<lparr>current_trace_id := t\<rparr>) sev msg tr = base_record ctx lg sev msg tr"
  "base_record ctx (lg\<lparr>written := w\<rparr>) sev msg tr = base_record ctx lg sev msg tr"
  by (simp_all add: base_record_def)

lemma logger_log_plain:
  assumes "plain_fields kw"
  shows "logger_log ctx lg sev msg ei (make_extra kw) =
     Inr (if isEnabledFor lg (levelno sev)
          then lg\<lparr>written := written lg @
                 [json_dumps (base_record ctx lg sev msg (current_trace_id lg)
                    @ (case ei of None \<Rightarrow> [] | Some e \<Rightarrow> exception_fields e)) @ [CHR 0x0A]]\<rparr>
          else lg)"
  using plain_fields_reserved[OF assms] plain_fields_logger_instance[OF assms]
  by (simp add: logger_log_def makeRecord_def format_def log_data_self base_record_def)

lemma log_with_context_plain:
  assumes "plain_fields kw"
  shows "log_with_context ctx lg sev msg tid kw =
     (None, if isEnabledFor lg (levelno sev)
          then lg\<lparr>written := written lg @
                 [json_dumps (base_record ctx lg sev msg (py_or tid (current_trace_id lg)))
                    @ [CHR 0x0A]]\<rparr>
          else lg)"
  by (simp add: log_with_context_def logger_log_plain[OF assms] Let_def)

lemma exception_plain:
  assumes "plain_fields kw"
  shows "exception ctx lg msg tid kw =
     (None, if isEnabledFor lg (levelno ERROR)
          then lg\<lparr>written := written lg @
                 [json_dumps (base_record ctx lg ERROR msg (py_or tid (current_trace_id lg))
                    @ exception_fields (sys_exc_info ctx)) @ [CHR 0x0A]]\<rparr>
          else lg)"
  by (simp add: exception_def logger_exception_def logger_log_plain[OF assms] Let_def)

lemma invoke_plain:
  assumes "plain_fields kw"
  shows "invoke m ctx lg msg tid kw =
     (None, if isEnabledFor lg (levelno (method_severity m))
          then lg\<lparr>written := written lg @
                 [json_dumps (base_record ctx lg (method_severity m) msg
                                (py_or tid (current_trace_id lg))
                    @ exception_part m ctx) @ [CHR 0x0A]]\<rparr>
          else lg)"
  using plain_fields_params[OF assms]
  by (cases m)
     (simp_all add: debug_def info_def warning_def error_def critical_def
        call_log_with_context_def log_with_context_plain[OF assms] exception_plain[OF assms]
        exception_part_def del: levelno.simps)

lemma plain_fields_Nil: "plain_fields []"
  by (simp add: plain_fields_def)

lemma logger_log_frame:
  "logger_log ctx lg sev msg ei extra = Inr lg' \<Longrightarrow> lg' = lg\<lparr>written := written lg'\<rparr>"
  by (auto simp: logger_log_def split: if_splits sum.splits)

lemma log_with_context_returns:
  assumes "fst (log_with_context ctx lg sev msg tid kw) = None"
  shows "snd (log_with_context ctx lg sev msg tid kw)
           = lg\<lparr>written := written (snd (log_with_context ctx lg sev msg tid kw))\<rparr>"
proof (cases "logger_log ctx (lg\<lparr>current_trace_id := py_or tid (current_trace_id lg)\<rparr>)
                sev msg None (make_extra kw)")
  case (Inl e)
  with assms show ?thesis by (simp add: log_with_context_def Let_def)
next
  case (Inr lg')
  from logger_log_frame[OF Inr] obtain w where
    "lg' = lg\<lparr>current_trace_id := py_or tid (current_trace_id lg), written := w\<rparr>"
    by blast
  then have "lg'\<lparr>current_trace_id := current_trace_id lg\<rparr> = lg\<lparr>written := written lg'\<rparr>"
    by simp
  with Inr show ?thesis by (simp add: log_with_context_def Let_def)
qed

lemma exception_returns:
  assumes "fst (exception ctx lg msg tid kw) = None"
  shows "snd (exception ctx lg msg tid kw)
           = lg\<lparr>written := written (snd (exception ctx lg msg tid kw))\<rparr>"
proof (cases "logger_log ctx (lg\<lparr>current_trace_id := py_or tid (current_trace_id lg)\<rparr>)
                ERROR msg (Some (sys_exc_info ctx)) (make_extra kw)")
  case (Inl e)
  with assms show ?thesis by (simp add: exception_def logger_exception_def Let_def)
next
  case (Inr lg')
  from logger_log_frame[OF Inr] obtain w where
    "lg' = lg\<lparr>current_trace_id := py_or tid (current_trace_id lg), written := w\<rparr>"
    by blast
  then have "lg'\<lparr>current_trace_id := current_trace_id lg\<rparr> = lg\<lparr>written := written lg'\<rparr>"
    by simp
  with Inr show ?thesis by (simp add: exception_def logger_exception_def Let_def)
qed

lemma call_log_with_context_returns:
  assumes "fst (call_log_with_context ctx lg sev msg tid kw) = None"
  shows "snd (call_log_with_context ctx lg sev msg tid kw)
           = lg\<lparr>written := written (snd (call_log_with_context ctx lg sev msg tid kw))\<rparr>"
proof (cases "list_ex (\<lambda>k. k \<in> set log_with_context_params) (map fst kw)")
  case True
  with assms show ?thesis by (simp add: call_log_with_context_def)
next
  case False
  then have eq: "call_log_with_context ctx lg sev msg tid kw
                   = log_with_context ctx lg sev msg tid kw"
    by (simp add: call_log_with_context_def)
  from assms have "fst (log_with_context ctx lg sev msg tid kw) = None" unfolding eq .
  then show ?thesis unfolding eq by (rule log_with_context_returns)
qed

lemma invoke_returns:
  assumes "fst (invoke m ctx lg msg tid kw) = None"
  shows "snd (invoke m ctx lg msg tid kw)
           = lg\<lparr>written := written (snd (invoke m ctx lg msg tid kw))\<rparr>"
proof (cases m)
  case LogDebug
  with assms show ?thesis
    unfolding LogDebug invoke.simps debug_def by (intro call_log_with_context_returns)
next
  case LogInfo
  with assms show ?thesis
    unfolding LogInfo invoke.simps info_def by (intro call_log_with_context_returns)
next
  case LogWarning
  with assms show ?thesis
    unfolding LogWarning invoke.simps warning_def by (intro call_log_with_context_returns)
next
  case LogError
  with assms show ?thesis
    unfolding LogError invoke.simps error_def by (intro call_log_with_context_returns)
next
  case LogCritical
  with assms show ?thesis
    unfolding LogCritical invoke.simps critical_def by (intro call_log_with_context_returns)
next
  case LogException
  with assms show ?thesis
    unfolding LogException invoke.simps by (intro exception_returns)
qed

lemma py_or_simps:
  "py_or None c = c" "py_or (Some []) c = c" "t \<noteq> [] \<Longrightarrow> py_or (Some t) c = Some t"
  by (simp_all add: py_or_def)

lemma trace_id_of_base_record:
  "map_of (base_record ctx lg sev msg tr @ rest) ''trace_id'' = Some (json_opt tr)"
  by (simp add: base_record_def)

section \<open>Sample calls\<close>

lemmas json_eval = json_dumps_def json_item_def encode_basestring_def escape_char_def
  ESCAPE_DCT_def str_int_def str_nat.simps digit_char_def

lemma sample_enabled:
  "isEnabledFor sample_logger (levelno INFO)" "isEnabledFor sample_logger (levelno WARNING)"
  "isEnabledFor sample_logger (levelno ERROR)"
  by (simp_all add: isEnabledFor_def getEffectiveLevel_def sample_logger_def)

lemma sample_written: "written sample_logger = []"
  by (simp add: sample_logger_def)

lemma sample_current: "current_trace_id sample_logger = Some ''X''"
  by (simp add: sample_logger_def)

lemma sample_info_record:
  "base_record sample_ambient sample_logger INFO ''m'' tr =
     [(''timestamp'', JStr ''2024-05-01T10:00:00+00:00''), (''level'', JStr ''INFO''),
      (''environment'', JStr ''development''), (''trace_id'', json_opt tr),
      (''logger'', JStr ''RMRForecast''), (''message'', JStr ''m''),
      (''module'', JStr ''logger''), (''function'', JStr ''_log_with_context''),
      (''line'', JInt 159)]"
  by (simp add: base_record_def sample_ambient_def sample_logger_def)

lemma sample_plain: "plain_fields [(''user'', PyStr ''ann''), (''attempt'', PyInt 2)]"
  by (simp add: plain_fields_def log_with_context_params_def reserved_keys_def)

lemma sample_override_written:
  "written (snd (invoke LogInfo sample_ambient sample_logger ''m'' None
                   [(''logger_instance'', PyStr ''x'')])) =
     [json_dumps
        [(''timestamp'', JStr ''2024-05-01T10:00:00+00:00''), (''level'', JStr ''INFO''),
         (''environment'', JStr ''unknown''), (''trace_id'', JNull),
         (''logger'', JStr ''RMRForecast''), (''message'', JStr ''m''),
         (''module'', JStr ''logger''), (''function'', JStr ''_log_with_context''),
         (''line'', JInt 159)]
      @ [CHR 0x0A]]"
proof -
  have e: "make_extra [(''logger_instance'', PyStr ''x'')] = [(''logger_instance'', PyStr ''x'')]"
    by (simp add: make_extra_def)
  have p: "''logger_instance'' \<notin> set log_with_context_params"
    by (simp add: log_with_context_params_def)
  have en: "isEnabledFor (sample_logger\<lparr>current_trace_id := Some ''X''\<rparr>) 20"
    using sample_enabled(1) by simp
  show ?thesis
    unfolding invoke.simps info_def call_log_with_context_def
    by (simp add: p log_with_context_def e logger_log_def en sample_current sample_written
          makeRecord_def logger_instance_not_reserved format_def log_data_def json_opt_def
          py_or_simps Let_def)
       (simp add: sample_logger_def sample_ambient_def isEnabledFor_def getEffectiveLevel_def)
qed

lemma sample_reserved_raises:
  "invoke LogInfo sample_ambient sample_logger ''m'' None [(''name'', PyStr ''x'')]
     = (Some (KeyError ''name''), sample_logger)"
proof -
  have e: "make_extra [(''name'', PyStr ''x'')]
             = [(''logger_instance'', PySelf), (''name'', PyStr ''x'')]"
    by (simp add: make_extra_def)
  have p: "''name'' \<notin> set log_with_context_params"
    by (simp add: log_with_context_params_def)
  have f: "find (\<lambda>k. k \<in> set reserved_keys) [''logger_instance'', ''name''] = Some ''name''"
    by (simp add: reserved_keys_def)
  have en: "isEnabledFor (sample_logger\<lparr>current_trace_id := Some ''X''\<rparr>) (levelno INFO)"
    using sample_enabled(1) by simp
  have s: "sample_logger\<lparr>current_trace_id := Some ''X''\<rparr> = sample_logger"
    by (simp add: sample_logger_def)
  have m: "makeRecord sample_ambient (sample_logger\<lparr>current_trace_id := Some ''X''\<rparr>) INFO ''m''
             None [(''logger_instance'', PySelf), (''name'', PyStr ''x'')]
           = Inl (KeyError ''name'')"
    unfolding makeRecord_def using f by simp
  have l: "logger_log sample_ambient (sample_logger\<lparr>current_trace_id := Some ''X''\<rparr>) INFO ''m''
             None [(''logger_instance'', PySelf), (''name'', PyStr ''x'')]
           = Inl (KeyError ''name'')"
    unfolding logger_log_def m using en by simp
  show ?thesis
    unfolding invoke.simps info_def call_log_with_context_def log_with_context_def e
      sample_current py_or_simps Let_def l
    using p s by simp
qed

section \<open>Properties of the log calls\<close>

text \<open>
  C1, as the specification states it, fails: with current trace id \<open>X\<close>, the call
  \<open>info("m", trace_id="")\<close> supplies a trace id, the empty string, and the record it
  emits carries \<open>X\<close>.
\<close>

theorem explicit_empty_trace_id_ignored:
  "written (snd (invoke LogInfo sample_ambient sample_logger ''m'' (Some []) [])) =
     [json_dumps
        [(''timestamp'', JStr ''2024-05-01T10:00:00+00:00''), (''level'', JStr ''INFO''),
         (''environment'', JStr ''development''), (''trace_id'', JStr ''X''),
         (''logger'', JStr ''RMRForecast''), (''message'', JStr ''m''),
         (''module'', JStr ''logger''), (''function'', JStr ''_log_with_context''),
         (''line'', JInt 159)]
      @ [CHR 0x0A]]
   \<and> written (snd (invoke LogInfo sample_ambient sample_logger ''m'' (Some []) [])) \<noteq>
     [json_dumps
        [(''timestamp'', JStr ''2024-05-01T10:00:00+00:00''), (''level'', JStr ''INFO''),
         (''environment'', JStr ''development''), (''trace_id'', JStr []),
         (''logger'', JStr ''RMRForecast''), (''message'', JStr ''m''),
         (''module'', JStr ''logger''), (''function'', JStr ''_log_with_context''),
         (''line'', JInt 159)]
      @ [CHR 0x0A]]"
proof -
  have w: "written (snd (invoke LogInfo sample_ambient sample_logger ''m'' (Some []) [])) =
     [json_dumps (base_record sample_ambient sample_logger INFO ''m'' (Some ''X'')) @ [CHR 0x0A]]"
    unfolding invoke_plain[OF plain_fields_Nil] using sample_enabled(1)
    by (simp add: py_or_simps exception_part_def sample_written sample_current)
  show ?thesis
    unfolding w sample_info_record by (simp add: json_opt_def json_eval)
qed

text \<open>
  C1, amended. For each of \<open>debug\<close>, \<open>info\<close>, \<open>warning\<close>, \<open>error\<close>, \<open>critical\<close> and
  \<open>exception\<close>, when the severity is enabled and the keyword fields are plain, the call
  writes one record whose \<open>trace_id\<close> field is the supplied \<open>trace_id\<close> argument if
  one was given and is not empty, otherwise the current trace id of the logger,
  otherwise null.
\<close>

theorem effective_trace_id_of_call:
  assumes "isEnabledFor lg (levelno (method_severity m))" and "plain_fields kw"
  shows "written (snd (invoke m ctx lg msg tid kw)) =
           written lg @
             [json_dumps
                (base_record ctx lg (method_severity m) msg
                   (case tid of
                      Some t \<Rightarrow> if t \<noteq> [] then Some t else current_trace_id lg
                    | None \<Rightarrow> current_trace_id lg)
                 @ exception_part m ctx)
              @ [CHR 0x0A]]
         \<and> map_of
             (base_record ctx lg (method_severity m) msg
                (case tid of
                   Some t \<Rightarrow> if t \<noteq> [] then Some t else current_trace_id lg
                 | None \<Rightarrow> current_trace_id lg)
              @ exception_part m ctx) ''trace_id''
           = Some (case tid of
                     Some t \<Rightarrow>
                       if t \<noteq> [] then JStr t
                       else (case current_trace_id lg of None \<Rightarrow> JNull | Some c \<Rightarrow> JStr c)
                   | None \<Rightarrow> (case current_trace_id lg of None \<Rightarrow> JNull | Some c \<Rightarrow> JStr c))"
proof -
  have e: "py_or tid (current_trace_id lg) =
           (case tid of
              Some t \<Rightarrow> if t \<noteq> [] then Some t else current_trace_id lg
            | None \<Rightarrow> current_trace_id lg)"
    by (simp add: py_or_def)
  show ?thesis
    unfolding trace_id_of_base_record invoke_plain[OF assms(2)] e[symmetric]
    using assms(1) by (simp add: py_or_def json_opt_def split: option.splits)
qed

theorem effective_trace_id_of_call_witness:
  "isEnabledFor sample_logger (levelno (method_severity LogWarning))
   \<and> plain_fields [(''user'', PyStr ''ann''), (''attempt'', PyInt 2)]
   \<and> written (snd (invoke LogWarning sample_ambient sample_logger ''disk low'' (Some ''Y'')
                      [(''user'', PyStr ''ann''), (''attempt'', PyInt 2)]))
       = [json_dumps (base_record sample_ambient sample_logger WARNING ''disk low'' (Some ''Y''))
          @ [CHR 0x0A]]
   \<and> map_of (base_record sample_ambient sample_logger WARNING ''disk low'' (Some ''Y''))
         ''trace_id'' = Some (JStr ''Y'')"
proof -
  have h1: "isEnabledFor sample_logger (levelno (method_severity LogWarning))"
    using sample_enabled(2) by simp
  note t = effective_trace_id_of_call[OF h1 sample_plain, of sample_ambient "''disk low''"
             "Some ''Y''"]
  have x: "exception_part LogWarning sample_ambient = []" by (simp add: exception_part_def)
  from t show ?thesis
    unfolding x using h1 sample_plain by (simp add: sample_written del: invoke.simps levelno.simps)
qed

text \<open>
  C2. When a log call with an explicit \<open>trace_id\<close> returns, the current trace id of
  the logger is what it was before the call, and a following call without a
  \<open>trace_id\<close> emits a record with that earlier trace id.
\<close>

theorem explicit_trace_id_restored:
  assumes "fst (invoke m ctx lg msg (Some t) kw) = None"
  shows "current_trace_id (snd (invoke m ctx lg msg (Some t) kw)) = current_trace_id lg
         \<and> (isEnabledFor lg (levelno (method_severity m')) \<longrightarrow>
              written (snd (invoke m' ctx' (snd (invoke m ctx lg msg (Some t) kw)) msg' None []))
                = written (snd (invoke m ctx lg msg (Some t) kw)) @
                    [json_dumps (base_record ctx' lg (method_severity m') msg'
                                   (current_trace_id lg)
                                 @ exception_part m' ctx')
                     @ [CHR 0x0A]])"
proof -
  let ?lg1 = "snd (invoke m ctx lg msg (Some t) kw)"
  have f: "?lg1 = lg\<lparr>written := written ?lg1\<rparr>" using assms by (rule invoke_returns)
  have c: "current_trace_id ?lg1 = current_trace_id lg" by (subst f) simp
  have en: "isEnabledFor ?lg1 n = isEnabledFor lg n" for n by (subst f) simp
  have b: "base_record ctx' ?lg1 sev msg' tr = base_record ctx' lg sev msg' tr" for sev tr
    by (subst f) simp
  show ?thesis
    by (simp add: invoke_plain[OF plain_fields_Nil] c en b py_or_simps)
qed

theorem explicit_trace_id_restored_witness:
  "fst (invoke LogInfo sample_ambient sample_logger ''m2'' (Some ''Y'') []) = None
   \<and> isEnabledFor sample_logger (levelno (method_severity LogInfo))
   \<and> current_trace_id (snd (invoke LogInfo sample_ambient sample_logger ''m2'' (Some ''Y'') []))
       = Some ''X''
   \<and> written (snd (invoke LogInfo sample_ambient
                      (snd (invoke LogInfo sample_ambient sample_logger ''m2'' (Some ''Y'') []))
                      ''m3'' None []))
       = [json_dumps (base_record sample_ambient sample_logger INFO ''m2'' (Some ''Y''))
            @ [CHR 0x0A],
          json_dumps (base_record sample_ambient sample_logger INFO ''m3'' (Some ''X''))
            @ [CHR 0x0A]]"
proof -
  let ?first = "invoke LogInfo sample_ambient sample_logger ''m2'' (Some ''Y'') []"
  have h1: "isEnabledFor sample_logger (levelno (method_severity LogInfo))"
    using sample_enabled(1) by simp
  have r: "?first = (None, sample_logger\<lparr>written :=
             [json_dumps (base_record sample_ambient sample_logger INFO ''m2'' (Some ''Y''))
                @ [CHR 0x0A]]\<rparr>)"
    unfolding invoke_plain[OF plain_fields_Nil] using sample_enabled(1)
    by (simp add: py_or_simps exception_part_def sample_written)
  have h0: "fst ?first = None" unfolding r by simp
  have w: "written (snd ?first) =
             [json_dumps (base_record sample_ambient sample_logger INFO ''m2'' (Some ''Y''))
                @ [CHR 0x0A]]"
    unfolding r by simp
  have x: "exception_part LogInfo sample_ambient = []" by (simp add: exception_part_def)
  note t = explicit_trace_id_restored[OF h0, of LogInfo sample_ambient "''m3''"]
  from t h1 have
    "current_trace_id (snd ?first) = current_trace_id sample_logger"
    "written (snd (invoke LogInfo sample_ambient (snd ?first) ''m3'' None []))
       = written (snd ?first) @
           [json_dumps (base_record sample_ambient sample_logger (method_severity LogInfo) ''m3''
                          (current_trace_id sample_logger)
                        @ exception_part LogInfo sample_ambient) @ [CHR 0x0A]]"
    by blast+
  then show ?thesis
    unfolding w x sample_current using h0 h1 by (simp del: invoke.simps levelno.simps)
qed

text \<open>
  C9. An empty string as \<open>trace_id\<close> argument is no override: the call behaves as the
  call without the argument, and the record it emits carries the current trace id of
  the logger (null when there is none).
\<close>

theorem empty_trace_id_not_an_override:
  "invoke m ctx lg msg (Some []) kw = invoke m ctx lg msg None kw
   \<and> (isEnabledFor lg (levelno (method_severity m)) \<and> plain_fields kw \<longrightarrow>
        written (snd (invoke m ctx lg msg (Some []) kw)) =
          written lg @
            [json_dumps (base_record ctx lg (method_severity m) msg (current_trace_id lg)
                         @ exception_part m ctx)
             @ [CHR 0x0A]])"
proof
  show "invoke m ctx lg msg (Some []) kw = invoke m ctx lg msg None kw"
    by (cases m)
       (simp_all add: debug_def info_def warning_def error_def critical_def
          call_log_with_context_def log_with_context_def exception_def py_or_simps)
next
  show "isEnabledFor lg (levelno (method_severity m)) \<and> plain_fields kw \<longrightarrow>
        written (snd (invoke m ctx lg msg (Some []) kw)) =
          written lg @
            [json_dumps (base_record ctx lg (method_severity m) msg (current_trace_id lg)
                         @ exception_part m ctx)
             @ [CHR 0x0A]]"
    by (simp add: invoke_plain py_or_simps)
qed

theorem empty_trace_id_not_an_override_witness:
  "isEnabledFor sample_logger (levelno (method_severity LogError))
   \<and> plain_fields []
   \<and> invoke LogError sample_ambient sample_logger ''m'' (Some []) []
       = invoke LogError sample_ambient sample_logger ''m'' None []
   \<and> written (snd (invoke LogError sample_ambient sample_logger ''m'' (Some []) []))
       = [json_dumps (base_record sample_ambient sample_logger ERROR ''m'' (Some ''X''))
          @ [CHR 0x0A]]"
proof -
  have h1: "isEnabledFor sample_logger (levelno (method_severity LogError))"
    using sample_enabled(3) by simp
  note t = empty_trace_id_not_an_override[of LogError sample_ambient sample_logger "''m''" "[]"]
  have x: "exception_part LogError sample_ambient = []" by (simp add: exception_part_def)
  have 1: "invoke LogError sample_ambient sample_logger ''m'' (Some []) []
             = invoke LogError sample_ambient sample_logger ''m'' None []"
    using t by (rule conjunct1)
  have 2: "written (snd (invoke LogError sample_ambient sample_logger ''m'' (Some []) []))
       = written sample_logger @
         [json_dumps (base_record sample_ambient sample_logger (method_severity LogError) ''m''
                        (current_trace_id sample_logger)
                      @ exception_part LogError sample_ambient)
          @ [CHR 0x0A]]"
    using t[THEN conjunct2] h1 plain_fields_Nil by blast
  have 3: "written (snd (invoke LogError sample_ambient sample_logger ''m'' (Some []) []))
       = [json_dumps (base_record sample_ambient sample_logger ERROR ''m'' (Some ''X''))
          @ [CHR 0x0A]]"
    unfolding 2 x sample_written sample_current by simp
  from h1 plain_fields_Nil 1 3 show ?thesis by blast
qed

text \<open>
  C10, as stated, fails: a keyword field named \<open>logger_instance\<close> replaces the logger
  that the formatter reads, so the record shows the environment \<open>unknown\<close> and a null
  trace id, and differs from the record of the same call without the field. A keyword
  field with the name of a LogRecord attribute, such as \<open>name\<close>, makes the call raise
  a KeyError, and no record is written.
\<close>

theorem logger_instance_field_changes_record:
  "written (snd (invoke LogInfo sample_ambient sample_logger ''m'' None
                   [(''logger_instance'', PyStr ''x'')])) =
     [json_dumps
        [(''timestamp'', JStr ''2024-05-01T10:00:00+00:00''), (''level'', JStr ''INFO''),
         (''environment'', JStr ''unknown''), (''trace_id'', JNull),
         (''logger'', JStr ''RMRForecast''), (''message'', JStr ''m''),
         (''module'', JStr ''logger''), (''function'', JStr ''_log_with_context''),
         (''line'', JInt 159)]
      @ [CHR 0x0A]]
   \<and> written (snd (invoke LogInfo sample_ambient sample_logger ''m'' None [])) =
     [json_dumps
        [(''timestamp'', JStr ''2024-05-01T10:00:00+00:00''), (''level'', JStr ''INFO''),
         (''environment'', JStr ''development''), (''trace_id'', JStr ''X''),
         (''logger'', JStr ''RMRForecast''), (''message'', JStr ''m''),
         (''module'', JStr ''logger''), (''function'', JStr ''_log_with_context''),
         (''line'', JInt 159)]
      @ [CHR 0x0A]]
   \<and> invoke LogInfo sample_ambient sample_logger ''m'' None [(''logger_instance'', PyStr ''x'')]
       \<noteq> invoke LogInfo sample_ambient sample_logger ''m'' None []
   \<and> invoke LogInfo sample_ambient sample_logger ''m'' None [(''name'', PyStr ''x'')]
       = (Some (KeyError ''name''), sample_logger)"
proof -
  let ?a = "invoke LogInfo sample_ambient sample_logger ''m'' None
              [(''logger_instance'', PyStr ''x'')]"
  let ?b = "invoke LogInfo sample_ambient sample_logger ''m'' None []"
  have w: "written (snd ?b) =
     [json_dumps (base_record sample_ambient sample_logger INFO ''m'' (Some ''X'')) @ [CHR 0x0A]]"
    unfolding invoke_plain[OF plain_fields_Nil] using sample_enabled(1)
    by (simp add: py_or_simps exception_part_def sample_written sample_current)
  have d: "written (snd ?a) \<noteq> written (snd ?b)"
    unfolding sample_override_written w sample_info_record
    by (simp add: json_opt_def json_eval)
  have n: "?a \<noteq> ?b"
  proof
    assume "?a = ?b"
    then have "written (snd ?a) = written (snd ?b)" by (simp only:)
    with d show False ..
  qed
  have w': "written (snd ?b) =
     [json_dumps
        [(''timestamp'', JStr ''2024-05-01T10:00:00+00:00''), (''level'', JStr ''INFO''),
         (''environment'', JStr ''development''), (''trace_id'', JStr ''X''),
         (''logger'', JStr ''RMRForecast''), (''message'', JStr ''m''),
         (''module'', JStr ''logger''), (''function'', JStr ''_log_with_context''),
         (''line'', JInt 159)]
      @ [CHR 0x0A]]"
    unfolding w sample_info_record by (simp add: json_opt_def)
  from sample_override_written w' n sample_reserved_raises show ?thesis by (intro conjI)
qed

text \<open>
  C10, amended. Plain keyword fields never reach the output: two calls on the same
  logger that differ only in their plain keyword fields have the same outcome, and the
  record written holds the base fields and the exception fields only.
\<close>

theorem plain_fields_not_serialized:
  assumes "plain_fields kw1" and "plain_fields kw2"
  shows "invoke m ctx lg msg tid kw1 = invoke m ctx lg msg tid kw2
         \<and> written (snd (invoke m ctx lg msg tid kw1)) =
             (if isEnabledFor lg (levelno (method_severity m))
              then written lg @
                     [json_dumps (base_record ctx lg (method_severity m) msg
                                    (py_or tid (current_trace_id lg))
                                  @ exception_part m ctx)
                      @ [CHR 0x0A]]
              else written lg)"
  by (simp add: invoke_plain[OF assms(1)] invoke_plain[OF assms(2)])

theorem plain_fields_not_serialized_witness:
  "plain_fields [(''user'', PyStr ''ann''), (''attempt'', PyInt 2)]
   \<and> plain_fields []
   \<and> invoke LogInfo sample_ambient sample_logger ''m'' None
         [(''user'', PyStr ''ann''), (''attempt'', PyInt 2)]
       = invoke LogInfo sample_ambient sample_logger ''m'' None []"
  using plain_fields_not_serialized[OF sample_plain plain_fields_Nil,
          of LogInfo sample_ambient sample_logger "''m''" None]
    sample_plain plain_fields_Nil
  by (simp del: invoke.simps)

section \<open>Properties of the record\<close>

lemma keys_base_record: "map fst (base_record ctx lg sev msg tr) = base_keys"
  by (simp add: base_record_def base_keys_def)

lemma keys_exception_fields: "map fst (exception_fields ei) = exception_keys"
  by (cases ei) (auto simp: exception_fields_def exception_keys_def Let_def)

lemma keys_exception_part:
  "map fst (exception_part m ctx) = (if m = LogException then exception_keys else [])"
  by (simp add: exception_part_def keys_exception_fields)

lemma exception_fields_None:
  "exception_fields None =
     [(''exception_type'', JNull), (''exception_message'', JNull),
      (''root_cause_type'', JNull), (''root_cause_message'', JNull),
      (''traceback'', JStr [])]"
  by (simp add: exception_fields_def)








lemma log_data_general:
  "\<exists>env tr. log_data self ts r =
     [(''timestamp'', JStr ts),
      (''level'', JStr (rec_levelname r)),
      (''environment'', JStr env),
      (''trace_id'', json_opt tr),
      (''logger'', JStr (rec_name r)),
      (''message'', JStr (rec_message r)),
      (''module'', JStr (rec_module r)),
      (''function'', JStr (rec_funcName r)),
      (''line'', JInt (rec_lineno r))]
     @ (case rec_exc_info r of None \<Rightarrow> [] | Some ei \<Rightarrow> exception_fields ei)"
  unfolding log_data_def Let_def by (intro exI) simp

lemma logger_log_written:
  assumes "logger_log ctx lg sev msg ei extra = Inr lg'"
  shows "written lg' = written lg
         \<or> (\<exists>env tr. written lg' =
               written lg @
                 [json_dumps (base_record ctx (lg\<lparr>environment := env\<rparr>) sev msg tr
                    @ (case ei of None \<Rightarrow> [] | Some e \<Rightarrow> exception_fields e))
                  @ [CHR 0x0A]])"
proof (cases "isEnabledFor lg (levelno sev)")
  case False
  with assms show ?thesis by (simp add: logger_log_def)
next
  case True
  show ?thesis
  proof (cases "makeRecord ctx lg sev msg ei extra")
    case (Inl e)
    with True assms show ?thesis by (simp add: logger_log_def)
  next
    case (Inr r)
    then have r: "r = \<lparr> rec_levelname = levelname sev, rec_name = logger_name lg,
                rec_message = msg, rec_module = module ctx,
                rec_funcName = funcName ctx, rec_lineno = lineno ctx,
                rec_exc_info = ei, rec_extra = extra \<rparr>"
      by (auto simp: makeRecord_def split: option.splits)
    from log_data_general[of lg "now ctx" r] obtain env tr where
      "log_data lg (now ctx) r =
         base_record ctx (lg\<lparr>environment := env\<rparr>) sev msg tr
         @ (case ei of None \<Rightarrow> [] | Some e \<Rightarrow> exception_fields e)"
      unfolding r by (auto simp: base_record_def)
    with True Inr assms have "written lg' =
               written lg @
                 [json_dumps (base_record ctx (lg\<lparr>environment := env\<rparr>) sev msg tr
                    @ (case ei of None \<Rightarrow> [] | Some e \<Rightarrow> exception_fields e))
                  @ [CHR 0x0A]]"
      by (auto simp: logger_log_def format_def)
    then show ?thesis by blast
  qed
qed

lemma log_with_context_written:
  "written (snd (log_with_context ctx lg sev msg tid kw)) = written lg
   \<or> (\<exists>env tr. written (snd (log_with_context ctx lg sev msg tid kw)) =
         written lg @
           [json_dumps (base_record ctx (lg\<lparr>environment := env\<rparr>) sev msg tr) @ [CHR 0x0A]])"
proof (cases "logger_log ctx (lg\<lparr>current_trace_id := py_or tid (current_trace_id lg)\<rparr>)
                sev msg None (make_extra kw)")
  case (Inl e)
  then show ?thesis by (simp add: log_with_context_def Let_def)
next
  case (Inr lg')
  from logger_log_written[OF Inr] Inr show ?thesis
    by (simp add: log_with_context_def Let_def base_record_def)
qed

lemma exception_written:
  "written (snd (exception ctx lg msg tid kw)) = written lg
   \<or> (\<exists>env tr. written (snd (exception ctx lg msg tid kw)) =
         written lg @
           [json_dumps (base_record ctx (lg\<lparr>environment := env\<rparr>) ERROR msg tr
                        @ exception_fields (sys_exc_info ctx)) @ [CHR 0x0A]])"
proof (cases "logger_log ctx (lg\<lparr>current_trace_id := py_or tid (current_trace_id lg)\<rparr>)
                ERROR msg (Some (sys_exc_info ctx)) (make_extra kw)")
  case (Inl e)
  then show ?thesis by (simp add: exception_def logger_exception_def Let_def)
next
  case (Inr lg')
  from logger_log_written[OF Inr] Inr show ?thesis
    by (simp add: exception_def logger_exception_def Let_def base_record_def)
qed

lemma call_log_with_context_written:
  "written (snd (call_log_with_context ctx lg sev msg tid kw)) = written lg
   \<or> (\<exists>env tr. written (snd (call_log_with_context ctx lg sev msg tid kw)) =
         written lg @
           [json_dumps (base_record ctx (lg\<lparr>environment := env\<rparr>) sev msg tr) @ [CHR 0x0A]])"
  using log_with_context_written[of ctx lg sev msg tid kw]
  by (cases "list_ex (\<lambda>k. k \<in> set log_with_context_params) (map fst kw)")
     (simp_all add: call_log_with_context_def)

lemma invoke_written:
  "written (snd (invoke m ctx lg msg tid kw)) = written lg
   \<or> (\<exists>env tr. written (snd (invoke m ctx lg msg tid kw)) =
         written lg @
           [json_dumps (base_record ctx (lg\<lparr>environment := env\<rparr>) (method_severity m) msg tr
                        @ exception_part m ctx) @ [CHR 0x0A]])"
proof (cases m)
  case LogDebug
  show ?thesis unfolding LogDebug invoke.simps debug_def
    using call_log_with_context_written[of ctx lg DEBUG msg tid kw]
    by (simp add: exception_part_def)
next
  case LogInfo
  show ?thesis unfolding LogInfo invoke.simps info_def
    using call_log_with_context_written[of ctx lg INFO msg tid kw]
    by (simp add: exception_part_def)
next
  case LogWarning
  show ?thesis unfolding LogWarning invoke.simps warning_def
    using call_log_with_context_written[of ctx lg WARNING msg tid kw]
    by (simp add: exception_part_def)
next
  case LogError
  show ?thesis unfolding LogError invoke.simps error_def
    using call_log_with_context_written[of ctx lg ERROR msg tid kw]
    by (simp add: exception_part_def)
next
  case LogCritical
  show ?thesis unfolding LogCritical invoke.simps critical_def
    using call_log_with_context_written[of ctx lg CRITICAL msg tid kw]
    by (simp add: exception_part_def)
next
  case LogException
  show ?thesis unfolding LogException invoke.simps
    using exception_written[of ctx lg msg tid kw]
    by (simp add: exception_part_def)
qed

lemma json_dumps_braces:
  "hd (json_dumps d) = CHR ''{'' \<and> last (json_dumps d) = CHR ''}''"
  by (simp add: json_dumps_def)

text \<open>
  C3, as stated, fails: the record of \<open>info("m")\<close> holds the nine base keys only; the
  five exception keys are left out, not written as null.
\<close>

theorem leveled_record_has_nine_keys:
  "written (snd (invoke LogInfo sample_ambient sample_logger ''m'' None [])) =
     [json_dumps
        [(''timestamp'', JStr ''2024-05-01T10:00:00+00:00''), (''level'', JStr ''INFO''),
         (''environment'', JStr ''development''), (''trace_id'', JStr ''X''),
         (''logger'', JStr ''RMRForecast''), (''message'', JStr ''m''),
         (''module'', JStr ''logger''), (''function'', JStr ''_log_with_context''),
         (''line'', JInt 159)]
      @ [CHR 0x0A]]
   \<and> written (snd (invoke LogInfo sample_ambient sample_logger ''m'' None [])) \<noteq>
     [json_dumps
        [(''timestamp'', JStr ''2024-05-01T10:00:00+00:00''), (''level'', JStr ''INFO''),
         (''environment'', JStr ''development''), (''trace_id'', JStr ''X''),
         (''logger'', JStr ''RMRForecast''), (''message'', JStr ''m''),
         (''module'', JStr ''logger''), (''function'', JStr ''_log_with_context''),
         (''line'', JInt 159),
         (''exception_type'', JNull), (''exception_message'', JNull),
         (''root_cause_type'', JNull), (''root_cause_message'', JNull),
         (''traceback'', JNull)]
      @ [CHR 0x0A]]"
proof -
  have w: "written (snd (invoke LogInfo sample_ambient sample_logger ''m'' None [])) =
     [json_dumps (base_record sample_ambient sample_logger INFO ''m'' (Some ''X'')) @ [CHR 0x0A]]"
    unfolding invoke_plain[OF plain_fields_Nil] using sample_enabled(1)
    by (simp add: py_or_simps exception_part_def sample_written sample_current)
  show ?thesis
    unfolding w sample_info_record by (simp add: json_opt_def json_eval)
qed

text \<open>
  C3, amended. Every record written is a single-line JSON object. The record of a
  leveled call holds exactly the nine base keys; the record of \<open>exception\<close> holds
  these followed by the five exception keys, and when no exception is being handled
  the four type and message fields are null and the traceback is the empty string.
  A call writes nothing or one such record, whatever its keyword fields; with the
  severity enabled and plain keyword fields it writes the record of the logger.
\<close>

theorem record_shape:
  "(written (snd (invoke m ctx lg msg tid kw)) = written lg
    \<or> (\<exists>env tr. written (snd (invoke m ctx lg msg tid kw)) =
          written lg @
            [json_dumps (base_record ctx (lg\<lparr>environment := env\<rparr>) (method_severity m) msg tr
                         @ exception_part m ctx)
             @ [CHR 0x0A]]))
   \<and> (isEnabledFor lg (levelno (method_severity m)) \<and> plain_fields kw \<longrightarrow>
        written (snd (invoke m ctx lg msg tid kw)) =
          written lg @
            [json_dumps (base_record ctx lg (method_severity m) msg
                           (py_or tid (current_trace_id lg))
                         @ exception_part m ctx)
             @ [CHR 0x0A]])
   \<and> map fst (base_record ctx lg' (method_severity m) msg tr' @ exception_part m ctx)
       = (if m = LogException then base_keys @ exception_keys else base_keys)
   \<and> single_line (json_dumps (base_record ctx lg' (method_severity m) msg tr'
                               @ exception_part m ctx))
   \<and> hd (json_dumps (base_record ctx lg' (method_severity m) msg tr' @ exception_part m ctx))
       = CHR ''{''
   \<and> last (json_dumps (base_record ctx lg' (method_severity m) msg tr' @ exception_part m ctx))
       = CHR ''}''
   \<and> (m = LogException \<and> sys_exc_info ctx = None \<longrightarrow>
         exception_part m ctx =
           [(''exception_type'', JNull), (''exception_message'', JNull),
            (''root_cause_type'', JNull), (''root_cause_message'', JNull),
            (''traceback'', JStr [])])"
proof (intro conjI)
  show "written (snd (invoke m ctx lg msg tid kw)) = written lg
    \<or> (\<exists>env tr. written (snd (invoke m ctx lg msg tid kw)) =
          written lg @
            [json_dumps (base_record ctx (lg\<lparr>environment := env\<rparr>) (method_severity m) msg tr
                         @ exception_part m ctx)
             @ [CHR 0x0A]])"
    by (rule invoke_written)
next
  show "isEnabledFor lg (levelno (method_severity m)) \<and> plain_fields kw \<longrightarrow>
        written (snd (invoke m ctx lg msg tid kw)) =
          written lg @
            [json_dumps (base_record ctx lg (method_severity m) msg
                           (py_or tid (current_trace_id lg))
                         @ exception_part m ctx)
             @ [CHR 0x0A]]"
  proof
    assume a: "isEnabledFor lg (levelno (method_severity m)) \<and> plain_fields kw"
    then have p: "plain_fields kw" ..
    show "written (snd (invoke m ctx lg msg tid kw)) =
          written lg @
            [json_dumps (base_record ctx lg (method_severity m) msg
                           (py_or tid (current_trace_id lg))
                         @ exception_part m ctx)
             @ [CHR 0x0A]]"
      unfolding invoke_plain[OF p] using a by simp
  qed
next
  show "map fst (base_record ctx lg' (method_severity m) msg tr' @ exception_part m ctx)
       = (if m = LogException then base_keys @ exception_keys else base_keys)"
    by (simp add: keys_base_record keys_exception_part)
next
  show "single_line (json_dumps (base_record ctx lg' (method_severity m) msg tr'
                               @ exception_part m ctx))"
    by (rule single_line_json_dumps)
next
  show "hd (json_dumps (base_record ctx lg' (method_severity m) msg tr' @ exception_part m ctx))
       = CHR ''{''"
    using json_dumps_braces by (rule conjunct1)
next
  show "last (json_dumps (base_record ctx lg' (method_severity m) msg tr' @ exception_part m ctx))
       = CHR ''}''"
    using json_dumps_braces by (rule conjunct2)
next
  show "m = LogException \<and> sys_exc_info ctx = None \<longrightarrow>
         exception_part m ctx =
           [(''exception_type'', JNull), (''exception_message'', JNull),
            (''root_cause_type'', JNull), (''root_cause_message'', JNull),
            (''traceback'', JStr [])]"
    by (simp add: exception_part_def exception_fields_None)
qed

theorem record_shape_witness:
  "isEnabledFor sample_logger (levelno (method_severity LogException))
   \<and> plain_fields [(''user'', PyStr ''ann''), (''attempt'', PyInt 2)]
   \<and> written (snd (invoke LogException sample_ambient sample_logger ''failed'' None
                      [(''user'', PyStr ''ann''), (''attempt'', PyInt 2)]))
       = [json_dumps (base_record sample_ambient sample_logger ERROR ''failed'' (Some ''X'')
                      @ [(''exception_type'', JNull), (''exception_message'', JNull),
                         (''root_cause_type'', JNull), (''root_cause_message'', JNull),
                         (''traceback'', JStr [])])
          @ [CHR 0x0A]]
   \<and> map fst (base_record sample_ambient sample_logger ERROR ''failed'' (Some ''X'')
               @ exception_part LogException sample_ambient)
       = base_keys @ exception_keys
   \<and> single_line (json_dumps (base_record sample_ambient sample_logger ERROR ''failed''
                                 (Some ''X'')
                               @ exception_part LogException sample_ambient))"
proof -
  have h1: "isEnabledFor sample_logger (levelno (method_severity LogException))"
    using sample_enabled(3) by simp
  have n: "sys_exc_info sample_ambient = None" by (simp add: sample_ambient_def)
  have c: "py_or None (current_trace_id sample_logger) = Some ''X''"
    by (simp add: py_or_simps sample_current)
  have s: "method_severity LogException = ERROR" by simp
  note t = record_shape[of LogException sample_ambient sample_logger "''failed''" None
             "[(''user'', PyStr ''ann''), (''attempt'', PyInt 2)]" sample_logger "Some ''X''"]
  have x: "exception_part LogException sample_ambient =
             [(''exception_type'', JNull), (''exception_message'', JNull),
              (''root_cause_type'', JNull), (''root_cause_message'', JNull),
              (''traceback'', JStr [])]"
    using t n by blast
  have 1: "written (snd (invoke LogException sample_ambient sample_logger ''failed'' None
                      [(''user'', PyStr ''ann''), (''attempt'', PyInt 2)]))
       = written sample_logger @
          [json_dumps (base_record sample_ambient sample_logger (method_severity LogException)
                         ''failed'' (py_or None (current_trace_id sample_logger))
                      @ exception_part LogException sample_ambient)
          @ [CHR 0x0A]]"
    using t h1 sample_plain by blast
  have w1: "written (snd (invoke LogException sample_ambient sample_logger ''failed'' None
                      [(''user'', PyStr ''ann''), (''attempt'', PyInt 2)]))
       = [json_dumps (base_record sample_ambient sample_logger ERROR ''failed'' (Some ''X'')
                      @ [(''exception_type'', JNull), (''exception_message'', JNull),
                         (''root_cause_type'', JNull), (''root_cause_message'', JNull),
                         (''traceback'', JStr [])])
          @ [CHR 0x0A]]"
    unfolding 1 c s x sample_written by simp
  have 2: "map fst (base_record sample_ambient sample_logger ERROR ''failed'' (Some ''X'')
               @ exception_part LogException sample_ambient)
       = base_keys @ exception_keys"
    using t[THEN conjunct2, THEN conjunct2, THEN conjunct1] unfolding s by simp
  have 3: "single_line (json_dumps (base_record sample_ambient sample_logger ERROR ''failed''
                                 (Some ''X'')
                               @ exception_part LogException sample_ambient))"
    using t[THEN conjunct2, THEN conjunct2, THEN conjunct2, THEN conjunct1] unfolding s .
  from h1 sample_plain w1 2 3 show ?thesis by (intro conjI)
qed



end
